theory Spec2Isabelle
  imports Main
begin

section \<open>The subscription page of the customer portal\<close>

text \<open>
  A shallow embedding of the React component \<^verbatim>\<open>NewSubscription\<close>: its state hooks,
  its three asynchronous handlers (\<^verbatim>\<open>fetchPublications\<close>, \<^verbatim>\<open>fetchSubscriptions\<close>,
  \<^verbatim>\<open>handlePayNow\<close>), the guard \<^verbatim>\<open>isSubscribed\<close> and the Pay Now button it renders.

  Conventions of the model.
  \<^item> A JavaScript string is a \<open>string\<close>; one \<open>char\<close> stands for one code unit below 256.
  \<^item> The type \<open>'n\<close> stands for JavaScript's \<^verbatim>\<open>number\<close> where the code only passes a
    number along (the price); the component never computes with it.
  \<^item> Every effect on the outside world (HTTP request, toast, console line, DOM event,
    navigation) is appended to the log \<open>effects\<close>, oldest first.
  \<^item> An \<^verbatim>\<open>async\<close> handler is cut at its \<^verbatim>\<open>await\<close>: the part before it runs when the
    handler is called and leaves a request in \<open>pending\<close>; the part after it (named
    \<open>..._settle\<close>) runs when the reply arrives, on the state of that moment, with the
    variables the closure captured at call time.
  \<^item> An exception is a value: a block completes as \<open>Normal w\<close> or as \<open>Throw e w\<close>.
  \<^item> Values have the types the TypeScript declares: \<^verbatim>\<open>response.data\<close> is a list of the
    declared records, or absent; a server message is a string, or absent.
  \<^item> The page is rendered from the current state before the next event is handled.
  \<^item> The component calls the default \<^verbatim>\<open>axios\<close>, not the instance with the interceptors
    of \<^verbatim>\<open>lib/axios.ts\<close>, which therefore play no part here.
\<close>

subsection \<open>Data\<close>

record 'n Publication =
  pub_id :: string          \<comment> \<open>\<^verbatim>\<open>_id\<close>\<close>
  name :: string
  language :: string
  monthlyPrice :: 'n

record PublicationRef =
  ref_id :: string          \<comment> \<open>\<^verbatim>\<open>publication._id\<close>\<close>

record Subscription =
  publication :: PublicationRef
  customerName :: string

datatype payment_method = Qr | Cod

text \<open>JSON values, as \<^verbatim>\<open>JSON.parse\<close> returns them and \<^verbatim>\<open>JSON.stringify\<close> prints them.\<close>

datatype 'n json =
    JNull
  | JBool bool
  | JNum 'n
  | JStr string
  | JArr "'n json list"
  | JObj "(string \<times> 'n json) list"

text \<open>
  A value held by \<^verbatim>\<open>localStorage\<close> is a string. The model keeps of it what the code can
  observe: whether it is the empty string, and what \<^verbatim>\<open>JSON.parse\<close> makes of it. Writing
  \<^verbatim>\<open>JSON.stringify v\<close> stores \<open>JsonText v\<close>: printing a value and parsing it again is
  taken to give the value back. The store itself may refuse to be read or written, see
  \<open>getItem\<close> and \<open>setItem\<close> below.
\<close>

datatype 'n item =
    EmptyString            \<comment> \<open>the string of length 0\<close>
  | NotJson                \<comment> \<open>a non-empty string that \<^verbatim>\<open>JSON.parse\<close> rejects\<close>
  | JsonText "'n json"     \<comment> \<open>a string that \<^verbatim>\<open>JSON.parse\<close> maps to this value\<close>

datatype 'n effect =
    GetPublications                   \<comment> \<open>\<^verbatim>\<open>GET /customer/publications\<close>\<close>
  | GetSubscriptions string           \<comment> \<open>\<^verbatim>\<open>GET /customer/subscriptions?customerName=\<close>, the name before encoding\<close>
  | PostSubscribe string string 'n    \<comment> \<open>\<^verbatim>\<open>POST /customer/subscriptions/subscribe\<close>: customerName, publicationId, amount\<close>
  | ToastError string
  | ToastSuccess string
  | ConsoleError string
  | DispatchEvent string
  | Navigate string

text \<open>A request in flight, with what the continuation's closure holds.\<close>

datatype 'n request =
    PubsReq
  | SubsReq
  | SubscribeReq "'n Publication" string   \<comment> \<open>\<^verbatim>\<open>selectedPub\<close> and \<^verbatim>\<open>customerNameInput\<close> of the render that was clicked\<close>

text \<open>
  How an awaited axios call ends: it resolves with \<^verbatim>\<open>response.data\<close>, or it rejects with an
  error whose \<^verbatim>\<open>error.response?.data?.message\<close> is the given text, if any.
\<close>

datatype 'a response = Resolved 'a | Rejected "string option"

datatype exn =
    AxiosError "string option"
  | SyntaxError              \<comment> \<open>thrown by \<^verbatim>\<open>JSON.parse\<close>\<close>
  | TypeError                \<comment> \<open>thrown by a call of \<^verbatim>\<open>push\<close> on a value that has none\<close>
  | SecurityError            \<comment> \<open>thrown by a store the page may not use\<close>
  | QuotaExceededError       \<comment> \<open>thrown by \<^verbatim>\<open>setItem\<close> on a store that is full\<close>

record 'n world =
  publications :: "'n Publication list"
  subscriptions :: "Subscription list"
  selectedPub :: "'n Publication option"
  showModal :: bool
  customerNameInput :: string
  paymentMethod :: payment_method
  loading :: bool
  localStorage :: "string \<Rightarrow> 'n item option"
  effects :: "'n effect list"
  pending :: "'n request list"
  ticks :: nat                        \<comment> \<open>how often the clock has been read\<close>

datatype 'n completion = Normal "'n world" | Throw exn "'n world"

text \<open>
  The host. Its \<^verbatim>\<open>Date\<close> object depends on its clock and time zone: the successive
  readings of the clock in milliseconds, the local day of the month of an instant, the
  instant with its local day of the month replaced (days beyond the month's end roll
  over), and the ISO rendering of an instant. Its \<^verbatim>\<open>localStorage\<close> may be closed to the
  page (every access throws), and decides, from what it holds, whether a value written
  under a key still fits.
\<close>

record 'n runtime =
  clock :: "nat \<Rightarrow> int"
  getDate :: "int \<Rightarrow> int"
  setDate :: "int \<Rightarrow> int \<Rightarrow> int"
  toISOString :: "int \<Rightarrow> string"
  storageBlocked :: bool
  storageAccepts :: "(string \<Rightarrow> 'n item option) \<Rightarrow> string \<Rightarrow> 'n item \<Rightarrow> bool"

definition initial :: "'n world" where
  "initial = \<lparr> publications = [], subscriptions = [], selectedPub = None,
      showModal = False, customerNameInput = [], paymentMethod = Qr, loading = False,
      localStorage = (\<lambda>k. None), effects = [], pending = [], ticks = 0 \<rparr>"

subsection \<open>JavaScript helpers\<close>

definition is_space :: "char \<Rightarrow> bool" where
  "is_space c = (c \<in> set [CHR 0x09, CHR 0x0A, CHR 0x0B, CHR 0x0C, CHR 0x0D, CHR 0x20, CHR 0xA0])"

definition trim :: "string \<Rightarrow> string" where
  "trim s = rev (dropWhile is_space (rev (dropWhile is_space s)))"

text \<open>\<^verbatim>\<open>m || d\<close> on an optional string: \<^verbatim>\<open>undefined\<close> and the empty string are falsy.\<close>

definition or_else :: "string option \<Rightarrow> string \<Rightarrow> string" where
  "or_else m d = (case m of None \<Rightarrow> d | Some s \<Rightarrow> if s = [] then d else s)"

text \<open>\<^verbatim>\<open>response.data || []\<close>\<close>

definition data_or_empty :: "'a list option \<Rightarrow> 'a list" where
  "data_or_empty d = (case d of None \<Rightarrow> [] | Some xs \<Rightarrow> xs)"

text \<open>\<^verbatim>\<open>error.response?.data?.message\<close>: only an axios error carries a response.\<close>

fun response_message :: "exn \<Rightarrow> string option" where
  "response_message (AxiosError m) = m"
| "response_message SyntaxError = None"
| "response_message TypeError = None"
| "response_message SecurityError = None"
| "response_message QuotaExceededError = None"

text \<open>The decimal digits of a natural number given as an \<open>int\<close>.\<close>

function digits :: "int \<Rightarrow> string" where
  "digits n = (if n < 10 then [''0123456789'' ! nat n]
               else digits (n div 10) @ [''0123456789'' ! nat (n mod 10)])"
  by pat_completeness auto
termination
  by (relation "measure nat") auto

declare digits.simps [simp del]

text \<open>\<^verbatim>\<open>Number.prototype.toString\<close> on an integer (below \<open>10^21\<close> in magnitude).\<close>

definition toString :: "int \<Rightarrow> string" where
  "toString i = (if i < 0 then CHR ''-'' # digits (- i) else digits i)"

text \<open>\<^verbatim>\<open>JSON.parse(item || "[]")\<close> on what \<^verbatim>\<open>getItem\<close> returned.\<close>

definition parse_stored :: "'n item option \<Rightarrow> exn + 'n json" where
  "parse_stored it =
     (case it of
        None \<Rightarrow> Inr (JArr [])
      | Some EmptyString \<Rightarrow> Inr (JArr [])
      | Some NotJson \<Rightarrow> Inl SyntaxError
      | Some (JsonText v) \<Rightarrow> Inr v)"

text \<open>\<^verbatim>\<open>v.push(x)\<close> on a parsed value: only an array has the method.\<close>

fun push :: "'n json \<Rightarrow> 'n json \<Rightarrow> exn + 'n json" where
  "push (JArr xs) x = Inr (JArr (xs @ [x]))"
| "push _ x = Inl TypeError"

text \<open>\<^verbatim>\<open>localStorage.getItem(k)\<close> and \<^verbatim>\<open>localStorage.setItem(k, v)\<close>, which can throw.\<close>

definition getItem :: "'n runtime \<Rightarrow> string \<Rightarrow> 'n world \<Rightarrow> exn + 'n item option" where
  "getItem rt k w = (if storageBlocked rt then Inl SecurityError else Inr (localStorage w k))"

definition setItem :: "'n runtime \<Rightarrow> string \<Rightarrow> 'n item \<Rightarrow> 'n world \<Rightarrow> 'n completion" where
  "setItem rt k v w =
     (if storageBlocked rt then Throw SecurityError w
      else if storageAccepts rt (localStorage w) k v
      then Normal (w\<lparr>localStorage := (localStorage w)(k \<mapsto> v)\<rparr>)
      else Throw QuotaExceededError w)"

definition emit :: "'n effect \<Rightarrow> 'n world \<Rightarrow> 'n world" where
  "emit e w = w\<lparr>effects := effects w @ [e]\<rparr>"

definition await :: "'n request \<Rightarrow> 'n world \<Rightarrow> 'n world" where
  "await r w = w\<lparr>pending := pending w @ [r]\<rparr>"

text \<open>\<^verbatim>\<open>try { body } catch (error) { handler }\<close> and \<^verbatim>\<open>... finally { cleanup }\<close>.\<close>

fun try_catch :: "'n completion \<Rightarrow> (exn \<Rightarrow> 'n world \<Rightarrow> 'n completion) \<Rightarrow> 'n completion" where
  "try_catch (Normal w) h = Normal w"
| "try_catch (Throw e w) h = h e w"

fun try_finally :: "'n completion \<Rightarrow> ('n world \<Rightarrow> 'n completion) \<Rightarrow> 'n completion" where
  "try_finally (Normal w) f = f w"
| "try_finally (Throw e w) f = (case f w of Normal w' \<Rightarrow> Throw e w' | Throw e' w' \<Rightarrow> Throw e' w')"

subsection \<open>The handlers\<close>

text \<open>
  \<^verbatim>\<open>fetchPublications\<close>, run once when the component mounts: the request, and the
  continuation inside \<^verbatim>\<open>try\<close>/\<^verbatim>\<open>catch\<close>.
\<close>

definition fetchPublications :: "'n world \<Rightarrow> 'n world" where
  "fetchPublications w = await PubsReq (emit GetPublications w)"

definition fetchPublications_try ::
  "'n Publication list option response \<Rightarrow> 'n world \<Rightarrow> 'n completion" where
  "fetchPublications_try resp w =
     (case resp of
        Rejected m \<Rightarrow> Throw (AxiosError m) w
      | Resolved d \<Rightarrow> Normal (w\<lparr>publications := data_or_empty d\<rparr>))"

definition fetchPublications_catch :: "exn \<Rightarrow> 'n world \<Rightarrow> 'n completion" where
  "fetchPublications_catch e w =
     Normal (emit (ToastError (or_else (response_message e) ''Failed to fetch available publications''))
            (emit (ConsoleError ''Error fetching publications:'') w))"

definition fetchPublications_settle ::
  "'n Publication list option response \<Rightarrow> 'n world \<Rightarrow> 'n completion" where
  "fetchPublications_settle resp w = try_catch (fetchPublications_try resp w) fetchPublications_catch"

text \<open>\<^verbatim>\<open>fetchSubscriptions(name)\<close>: the guard on the trimmed name, then the request.\<close>

definition fetchSubscriptions :: "string \<Rightarrow> 'n world \<Rightarrow> 'n world" where
  "fetchSubscriptions nm w =
     (if trim nm = [] then w\<lparr>subscriptions := []\<rparr>
      else await SubsReq (emit (GetSubscriptions nm) w))"

definition fetchSubscriptions_try ::
  "Subscription list option response \<Rightarrow> 'n world \<Rightarrow> 'n completion" where
  "fetchSubscriptions_try resp w =
     (case resp of
        Rejected m \<Rightarrow> Throw (AxiosError m) w
      | Resolved d \<Rightarrow> Normal (w\<lparr>subscriptions := data_or_empty d\<rparr>))"

definition fetchSubscriptions_catch :: "exn \<Rightarrow> 'n world \<Rightarrow> 'n completion" where
  "fetchSubscriptions_catch e w =
     Normal (emit (ToastError (or_else (response_message e) ''Failed to fetch subscriptions''))
            (emit (ConsoleError ''Error fetching subscriptions:'') w))"

definition fetchSubscriptions_settle ::
  "Subscription list option response \<Rightarrow> 'n world \<Rightarrow> 'n completion" where
  "fetchSubscriptions_settle resp w = try_catch (fetchSubscriptions_try resp w) fetchSubscriptions_catch"

definition handleSubscribeClick :: "'n Publication \<Rightarrow> 'n world \<Rightarrow> 'n world" where
  "handleSubscribeClick pub w = w\<lparr>selectedPub := Some pub, showModal := True\<rparr>"

text \<open>
  \<^verbatim>\<open>handlePayNow\<close> up to its \<^verbatim>\<open>await\<close>: the two guards, \<^verbatim>\<open>setLoading(true)\<close> and the POST.
\<close>

definition handlePayNow :: "'n world \<Rightarrow> 'n world" where
  "handlePayNow w =
     (if trim (customerNameInput w) = [] then emit (ToastError ''Please enter your name'') w
      else case selectedPub w of
        None \<Rightarrow> w
      | Some pub \<Rightarrow>
          await (SubscribeReq pub (customerNameInput w))
            (emit (PostSubscribe (trim (customerNameInput w)) (pub_id pub) (monthlyPrice pub))
               (w\<lparr>loading := True\<rparr>)))"

text \<open>
  The object \<^verbatim>\<open>newPayment\<close>, built from four readings of the clock, the \<open>k\<close>-th and the
  three after it: \<^verbatim>\<open>Date.now()\<close> for the id, \<^verbatim>\<open>new Date()\<close> whose day is set,
  \<^verbatim>\<open>new Date().getDate()\<close>, and \<^verbatim>\<open>new Date()\<close> for the paid date.
\<close>

definition newPayment :: "'n runtime \<Rightarrow> 'n Publication \<Rightarrow> nat \<Rightarrow> 'n json" where
  "newPayment rt pub k =
     JObj [(''id'', JStr (toString (clock rt k))),
           (''subscriptionName'', JStr (name pub)),
           (''amount'', JNum (monthlyPrice pub)),
           (''dueDate'', JStr (toISOString rt
               (setDate rt (clock rt (k + 1)) (getDate rt (clock rt (k + 2)) + 30)))),
           (''status'', JStr ''paid''),
           (''paidDate'', JStr (toISOString rt (clock rt (k + 3))))]"

text \<open>The rest of the \<^verbatim>\<open>try\<close> block, from the point where the POST has settled.\<close>

definition handlePayNow_try ::
  "'n runtime \<Rightarrow> 'n Publication \<Rightarrow> string \<Rightarrow> unit response \<Rightarrow> 'n world \<Rightarrow> 'n completion" where
  "handlePayNow_try rt pub nm resp w =
     (case resp of
        Rejected m \<Rightarrow> Throw (AxiosError m) w
      | Resolved _ \<Rightarrow>
          (let payment = newPayment rt pub (ticks w);
               w1 = w\<lparr>ticks := ticks w + 4\<rparr>
           in (case getItem rt ''payments'' w1 of
                 Inl e \<Rightarrow> Throw e w1
               | Inr stored \<Rightarrow>
                   (case parse_stored stored of
                      Inl e \<Rightarrow> Throw e w1
                    | Inr existingPayments \<Rightarrow>
                        (case push existingPayments payment of
                           Inl e \<Rightarrow> Throw e w1
                         | Inr updated \<Rightarrow>
                             (case setItem rt ''payments'' (JsonText updated) w1 of
                                Throw e w2 \<Rightarrow> Throw e w2
                              | Normal w2 \<Rightarrow>
                                  (let w3 = emit (DispatchEvent ''billsUpdated'') w2;
                                       w4 = emit (ToastSuccess
                                              (''Subscribed to '' @ name pub @ '' successfully!'')) w3;
                                       w5 = w4\<lparr>showModal := False\<rparr>;
                                       w6 = fetchSubscriptions nm w5;
                                       w7 = emit (Navigate ''/payments'') w6
                                   in Normal w7)))))))"

definition handlePayNow_catch :: "exn \<Rightarrow> 'n world \<Rightarrow> 'n completion" where
  "handlePayNow_catch e w =
     Normal (emit (ToastError (or_else (response_message e) ''Subscription failed''))
            (emit (ConsoleError ''Subscription error:'') w))"

definition handlePayNow_finally :: "'n world \<Rightarrow> 'n completion" where
  "handlePayNow_finally w = Normal (w\<lparr>loading := False\<rparr>)"

definition handlePayNow_settle ::
  "'n runtime \<Rightarrow> 'n Publication \<Rightarrow> string \<Rightarrow> unit response \<Rightarrow> 'n world \<Rightarrow> 'n completion" where
  "handlePayNow_settle rt pub nm resp w =
     try_finally (try_catch (handlePayNow_try rt pub nm resp w) handlePayNow_catch)
       handlePayNow_finally"

subsection \<open>What is rendered\<close>

definition isSubscribed :: "'n world \<Rightarrow> string \<Rightarrow> bool" where
  "isSubscribed w pubId = list_ex (\<lambda>sub. ref_id (publication sub) = pubId) (subscriptions w)"

text \<open>The dialog is rendered under \<^verbatim>\<open>showModal && selectedPub\<close>.\<close>

definition modal :: "'n world \<Rightarrow> 'n Publication option" where
  "modal w = (if showModal w then selectedPub w else None)"

text \<open>The Pay Now button of the dialog: its \<^verbatim>\<open>disabled\<close> attribute and its text.\<close>

definition payNow_disabled :: "'n world \<Rightarrow> 'n Publication \<Rightarrow> bool" where
  "payNow_disabled w pub = (loading w \<or> isSubscribed w (pub_id pub))"

definition payNow_label :: "'n world \<Rightarrow> 'n Publication \<Rightarrow> string" where
  "payNow_label w pub =
     (if loading w then ''Processing...''
      else if isSubscribed w (pub_id pub) then ''Already Subscribed''
      else ''Pay Now'')"

text \<open>The button as the page shows it, if the dialog is rendered.\<close>

definition payNow_button :: "'n world \<Rightarrow> (bool \<times> string) option" where
  "payNow_button w =
     (case modal w of
        None \<Rightarrow> None
      | Some pub \<Rightarrow> Some (payNow_disabled w pub, payNow_label w pub))"

subsection \<open>The component as a machine\<close>

text \<open>
  What can happen to the mounted component: the user clicks a Subscribe button of the
  list, closes the dialog, edits the name field, picks a payment method or clicks Pay Now
  (a disabled button takes no click), or the reply to the \<open>i\<close>-th request in flight arrives.
  \<open>exec\<close> is \<open>None\<close> where the event cannot happen in the state.
\<close>

datatype 'n reply =
    PubsData "'n Publication list option"
  | SubsData "Subscription list option"
  | PostOk
  | Failure "string option"

datatype 'n action =
    ClickSubscribe "'n Publication"
  | ClickClose
  | TypeName string
  | ChoosePayment payment_method
  | ClickPayNow
  | Reply nat "'n reply"

definition remove_nth :: "nat \<Rightarrow> 'a list \<Rightarrow> 'a list" where
  "remove_nth i xs = take i xs @ drop (Suc i) xs"

fun deliver :: "'n runtime \<Rightarrow> 'n request \<Rightarrow> 'n reply \<Rightarrow> 'n world \<Rightarrow> 'n completion option" where
  "deliver rt PubsReq (PubsData d) w = Some (fetchPublications_settle (Resolved d) w)"
| "deliver rt PubsReq (Failure m) w = Some (fetchPublications_settle (Rejected m) w)"
| "deliver rt SubsReq (SubsData d) w = Some (fetchSubscriptions_settle (Resolved d) w)"
| "deliver rt SubsReq (Failure m) w = Some (fetchSubscriptions_settle (Rejected m) w)"
| "deliver rt (SubscribeReq pub nm) PostOk w = Some (handlePayNow_settle rt pub nm (Resolved ()) w)"
| "deliver rt (SubscribeReq pub nm) (Failure m) w = Some (handlePayNow_settle rt pub nm (Rejected m) w)"
| "deliver rt PubsReq (SubsData d) w = None"
| "deliver rt PubsReq PostOk w = None"
| "deliver rt SubsReq (PubsData d) w = None"
| "deliver rt SubsReq PostOk w = None"
| "deliver rt (SubscribeReq pub nm) (PubsData d) w = None"
| "deliver rt (SubscribeReq pub nm) (SubsData d) w = None"

fun exec :: "'n runtime \<Rightarrow> 'n action \<Rightarrow> 'n world \<Rightarrow> 'n completion option" where
  "exec rt (ClickSubscribe pub) w =
     (if pub \<in> set (publications w) then Some (Normal (handleSubscribeClick pub w)) else None)"
| "exec rt ClickClose w =
     (case modal w of None \<Rightarrow> None | Some _ \<Rightarrow> Some (Normal (w\<lparr>showModal := False\<rparr>)))"
| "exec rt (TypeName v) w =
     (case modal w of None \<Rightarrow> None
      | Some _ \<Rightarrow> Some (Normal (fetchSubscriptions v (w\<lparr>customerNameInput := v\<rparr>))))"
| "exec rt (ChoosePayment m) w =
     (case modal w of None \<Rightarrow> None | Some _ \<Rightarrow> Some (Normal (w\<lparr>paymentMethod := m\<rparr>)))"
| "exec rt ClickPayNow w =
     (case modal w of None \<Rightarrow> None
      | Some pub \<Rightarrow> if payNow_disabled w pub then None else Some (Normal (handlePayNow w)))"
| "exec rt (Reply i r) w =
     (if i < length (pending w)
      then deliver rt (pending w ! i) r (w\<lparr>pending := remove_nth i (pending w)\<rparr>)
      else None)"

text \<open>A run stops at an event that cannot happen (\<open>None\<close>) and at an exception nobody caught.\<close>

fun run :: "'n runtime \<Rightarrow> 'n action list \<Rightarrow> 'n world \<Rightarrow> 'n completion option" where
  "run rt [] w = Some (Normal w)"
| "run rt (a # as) w =
     (case exec rt a w of
        None \<Rightarrow> None
      | Some (Throw e w') \<Rightarrow> Some (Throw e w')
      | Some (Normal w') \<Rightarrow> run rt as w')"

text \<open>The state after mounting, over a given content of \<^verbatim>\<open>localStorage\<close>.\<close>

definition mount :: "(string \<Rightarrow> 'n item option) \<Rightarrow> 'n world" where
  "mount ls = fetchPublications (initial\<lparr>localStorage := ls\<rparr>)"

text \<open>The state a run ends in, when every event could happen and nothing was thrown.\<close>

definition run_world :: "'n runtime \<Rightarrow> 'n action list \<Rightarrow> 'n world \<Rightarrow> 'n world option" where
  "run_world rt as w = (case run rt as w of Some (Normal w') \<Rightarrow> Some w' | _ \<Rightarrow> None)"

subsection \<open>Reading a state\<close>

fun world_of :: "'n completion \<Rightarrow> 'n world" where
  "world_of (Normal w) = w"
| "world_of (Throw e w) = w"

fun uncaught :: "'n completion \<Rightarrow> exn option" where
  "uncaught (Normal w) = None"
| "uncaught (Throw e w) = Some e"

text \<open>The ledger: the array stored under \<^verbatim>\<open>payments\<close>, where the stored text is one.\<close>

definition ledger :: "'n world \<Rightarrow> 'n json list option" where
  "ledger w =
     (case parse_stored (localStorage w ''payments'') of
        Inr (JArr xs) \<Rightarrow> Some xs
      | _ \<Rightarrow> None)"


definition count_effect :: "'n effect \<Rightarrow> 'n world \<Rightarrow> nat" where
  "count_effect e w = length (filter (\<lambda>x. x = e) (effects w))"

fun is_request :: "'n effect \<Rightarrow> bool" where
  "is_request GetPublications = True"
| "is_request (GetSubscriptions nm) = True"
| "is_request (PostSubscribe nm pid amount) = True"
| "is_request _ = False"

definition requests :: "'n world \<Rightarrow> 'n effect list" where
  "requests w = filter is_request (effects w)"

fun is_subscribe :: "'n request \<Rightarrow> bool" where
  "is_subscribe (SubscribeReq pub nm) = True"
| "is_subscribe _ = False"

definition submitting :: "'n world \<Rightarrow> bool" where
  "submitting w = list_ex is_subscribe (pending w)"

subsection \<open>A host in UTC with an open store that takes every write, for the examples\<close>

definition civil_from_days :: "int \<Rightarrow> int \<times> int \<times> int" where
  "civil_from_days z =
     (let z1 = z + 719468;
          era = z1 div 146097;
          doe = z1 - era * 146097;
          yoe = (doe - doe div 1460 + doe div 36524 - doe div 146096) div 365;
          doy = doe - (365 * yoe + yoe div 4 - yoe div 100);
          mp = (5 * doy + 2) div 153;
          d = doy - (153 * mp + 2) div 5 + 1;
          m = (if mp < 10 then mp + 3 else mp - 9);
          y = yoe + era * 400 + (if m \<le> 2 then 1 else 0)
      in (y, m, d))"

definition pad :: "nat \<Rightarrow> int \<Rightarrow> string" where
  "pad k i = replicate (k - length (digits i)) (CHR ''0'') @ digits i"

definition utc_getDate :: "int \<Rightarrow> int" where
  "utc_getDate t = snd (snd (civil_from_days (t div 86400000)))"

definition utc_setDate :: "int \<Rightarrow> int \<Rightarrow> int" where
  "utc_setDate t d = t + (d - utc_getDate t) * 86400000"

text \<open>For the years 0000 to 9999.\<close>

definition utc_toISOString :: "int \<Rightarrow> string" where
  "utc_toISOString t =
     (let (y, m, d) = civil_from_days (t div 86400000);
          r = t mod 86400000
      in pad 4 y @ ''-'' @ pad 2 m @ ''-'' @ pad 2 d @ ''T'' @
         pad 2 (r div 3600000) @ '':'' @ pad 2 (r div 60000 mod 60) @ '':'' @
         pad 2 (r div 1000 mod 60) @ ''.'' @ pad 3 (r mod 1000) @ ''Z'')"

definition utc :: "(nat \<Rightarrow> int) \<Rightarrow> 'n runtime" where
  "utc c = \<lparr> clock = c, getDate = utc_getDate, setDate = utc_setDate,
      toISOString = utc_toISOString, storageBlocked = False,
      storageAccepts = (\<lambda>held k v. True) \<rparr>"

subsection \<open>Fixtures\<close>

definition daily_times :: "int Publication" where
  "daily_times = \<lparr> pub_id = ''p1'', name = ''Daily Times'', language = ''English'', monthlyPrice = 100 \<rparr>"

definition sub_of :: "string \<Rightarrow> string \<Rightarrow> Subscription" where
  "sub_of pid nm = \<lparr> publication = \<lparr> ref_id = pid \<rparr>, customerName = nm \<rparr>"

text \<open>A clock that starts on 2 November 2025, 00:00:00 UTC, one millisecond per reading.\<close>

definition host :: "int runtime" where
  "host = utc (\<lambda>k. 1762041600000 + int k)"



definition closed_host :: "int runtime" where
  "closed_host = host\<lparr>storageBlocked := True\<rparr>"

definition no_storage :: "string \<Rightarrow> int item option" where
  "no_storage = (\<lambda>k. None)"

definition corrupt_storage :: "string \<Rightarrow> int item option" where
  "corrupt_storage = no_storage(''payments'' \<mapsto> NotJson)"

definition blank_storage :: "string \<Rightarrow> int item option" where
  "blank_storage = no_storage(''payments'' \<mapsto> EmptyString)"

text \<open>
  The catalogue has arrived, the user has opened the dialog of Daily Times and typed
  "Asha", and the lookup has answered that Asha has no subscription.
\<close>

definition asha_dialog :: "(string \<Rightarrow> int item option) \<Rightarrow> int world" where
  "asha_dialog ls = \<lparr> publications = [daily_times], subscriptions = [],
      selectedPub = Some daily_times, showModal = True, customerNameInput = ''Asha'',
      paymentMethod = Qr, loading = False, localStorage = ls,
      effects = [GetPublications, GetSubscriptions ''Asha''], pending = [], ticks = 0 \<rparr>"

text \<open>
  From there the user has clicked Pay Now and, with the POST still in flight, shortened the
  name to "Ash", whose lookup has answered with a subscription to Daily Times.
\<close>

definition ash_while_submitting :: "int world" where
  "ash_while_submitting = \<lparr> publications = [daily_times],
      subscriptions = [sub_of ''p1'' ''Ash''],
      selectedPub = Some daily_times, showModal = True, customerNameInput = ''Ash'',
      paymentMethod = Qr, loading = True, localStorage = no_storage,
      effects = [GetPublications, GetSubscriptions ''Asha'', PostSubscribe ''Asha'' ''p1'' 100,
                 GetSubscriptions ''Ash''],
      pending = [SubscribeReq daily_times ''Asha''], ticks = 0 \<rparr>"

text \<open>A ledger with one older entry, and the dialog with a padded name.\<close>

definition old_entry :: "int json" where
  "old_entry = JObj [(''id'', JStr ''1759363200000''), (''subscriptionName'', JStr ''Weekly Post''),
      (''amount'', JNum 40), (''status'', JStr ''pending'')]"

definition old_storage :: "string \<Rightarrow> int item option" where
  "old_storage = no_storage(''payments'' \<mapsto> JsonText (JArr [old_entry]))"

definition padded_dialog :: "int world" where
  "padded_dialog = asha_dialog no_storage\<lparr>customerNameInput := '' Asha '',
      effects := [GetPublications, GetSubscriptions '' Asha '']\<rparr>"

text \<open>The dialog of \<open>asha_dialog\<close> after the name has been replaced by two spaces.\<close>

definition blank_dialog :: "int world" where
  "blank_dialog = asha_dialog no_storage\<lparr>customerNameInput := ''  ''\<rparr>"

definition sent :: "string \<Rightarrow> int effect list" where
  "sent nm = [GetPublications, GetSubscriptions nm, PostSubscribe ''Asha'' ''p1'' 100]"

text \<open>The dialog of \<open>asha_dialog\<close> once Pay Now has been clicked and the POST has left.\<close>

definition asha_submitting :: "(string \<Rightarrow> int item option) \<Rightarrow> int world" where
  "asha_submitting ls = asha_dialog ls\<lparr>loading := True, effects := sent ''Asha''\<rparr>"

text \<open>The same state with the POST in flight, and the events that open the dialog.\<close>

definition asha_in_flight :: "(string \<Rightarrow> int item option) \<Rightarrow> int world" where
  "asha_in_flight ls = asha_submitting ls\<lparr>pending := [SubscribeReq daily_times ''Asha'']\<rparr>"

definition open_dialog :: "string \<Rightarrow> int action list" where
  "open_dialog nm = [Reply 0 (PubsData (Some [daily_times])), ClickSubscribe daily_times,
      TypeName nm, Reply 0 (SubsData (Some []))]"

subsection \<open>Invariant of the runs\<close>

fun is_pubs :: "'n request \<Rightarrow> bool" where
  "is_pubs PubsReq = True"
| "is_pubs _ = False"

definition in_flight :: "('n request \<Rightarrow> bool) \<Rightarrow> 'n world \<Rightarrow> nat" where
  "in_flight P w = length (filter P (pending w))"

text \<open>
  \<open>loading\<close> is set exactly while one POST is in flight; the catalogue is requested at
  most once, and the list is empty until its reply.
\<close>

definition inv :: "'n world \<Rightarrow> bool" where
  "inv w = (in_flight is_subscribe w = (if loading w then 1 else 0) \<and>
            in_flight is_pubs w \<le> 1 \<and>
            (0 < in_flight is_pubs w \<longrightarrow> publications w = []))"

section \<open>Properties\<close>

subsection \<open>Evaluation and the handlers, case by case\<close>

lemmas handler_defs =
  emit_def await_def getItem_def setItem_def fetchSubscriptions_def
  fetchSubscriptions_settle_def fetchSubscriptions_try_def fetchSubscriptions_catch_def
  fetchPublications_def fetchPublications_settle_def fetchPublications_try_def
  fetchPublications_catch_def handlePayNow_def handlePayNow_settle_def
  handlePayNow_try_def handlePayNow_catch_def handlePayNow_finally_def

lemmas fixture_defs =
  asha_dialog_def ash_while_submitting_def daily_times_def sub_of_def no_storage_def
  corrupt_storage_def blank_storage_def initial_def mount_def old_storage_def
  padded_dialog_def blank_dialog_def sent_def asha_submitting_def asha_in_flight_def
  open_dialog_def old_entry_def

lemma utc_store: "\<not> storageBlocked (utc c) \<and> storageAccepts (utc c) held k v"
  by (simp add: utc_def)

lemma host_store: "\<not> storageBlocked host \<and> storageAccepts host held k v"
  by (simp add: host_def utc_store)



lemma closed_host_store: "storageBlocked closed_host"
  by (simp add: closed_host_def)

lemma trim_Asha: "trim ''Asha'' = ''Asha''"
  by (simp add: trim_def is_space_def)

lemma trim_Ash: "trim ''Ash'' = ''Ash''"
  by (simp add: trim_def is_space_def)

lemma trim_padded: "trim '' Asha '' = ''Asha''"
  by (simp add: trim_def is_space_def)

lemma trim_blank: "trim ''  '' = []"
  by (simp add: trim_def is_space_def)

lemma modal_Some: "modal w = Some pub \<Longrightarrow> selectedPub w = Some pub \<and> showModal w"
  by (simp add: modal_def split: if_splits)


lemma ledger_cases:
  "ledger w = Some xs \<Longrightarrow> parse_stored (localStorage w ''payments'') = Inr (JArr xs)"
  by (auto simp: ledger_def split: sum.splits json.splits)

lemma parse_stored_error: "parse_stored it = Inl e \<Longrightarrow> e = SyntaxError"
  by (auto simp: parse_stored_def split: option.splits item.splits)

lemma push_error: "push v x = Inl e \<Longrightarrow> e = TypeError"
  by (cases v) auto

lemma no_ledger_cases:
  assumes "ledger w = None"
  shows "parse_stored (localStorage w ''payments'') = Inl SyntaxError \<or>
         (\<exists>v. parse_stored (localStorage w ''payments'') = Inr v \<and> push v x = Inl TypeError)"
proof (cases "parse_stored (localStorage w ''payments'')")
  case (Inl e)
  then show ?thesis using parse_stored_error by auto
next
  case (Inr v)
  with assms show ?thesis
    by (cases v) (simp_all add: ledger_def)
qed

text \<open>
  The state after a POST that resolved, over a ledger that is an array, on a store that
  is open and takes the write.
\<close>

lemma settle_success:
  assumes "ledger w = Some xs" and "\<not> storageBlocked rt"
    and "storageAccepts rt (localStorage w) ''payments''
           (JsonText (JArr (xs @ [newPayment rt pub (ticks w)])))"
  shows "handlePayNow_settle rt pub nm (Resolved ()) w =
     Normal (w\<lparr>ticks := ticks w + 4,
        localStorage := (localStorage w)(''payments'' \<mapsto>
           JsonText (JArr (xs @ [newPayment rt pub (ticks w)]))),
        showModal := False,
        subscriptions := (if trim nm = [] then [] else subscriptions w),
        pending := (if trim nm = [] then pending w else pending w @ [SubsReq]),
        effects := effects w @ [DispatchEvent ''billsUpdated'',
               ToastSuccess (''Subscribed to '' @ name pub @ '' successfully!'')]
               @ (if trim nm = [] then [] else [GetSubscriptions nm]) @ [Navigate ''/payments''],
        loading := False\<rparr>)"
  using ledger_cases [OF assms(1)] assms(2,3)
  by (simp add: handler_defs Let_def)

text \<open>The state after a POST that was rejected.\<close>

lemma settle_rejected:
  "handlePayNow_settle rt pub nm (Rejected m) w =
     Normal (w\<lparr>effects := effects w @ [ConsoleError ''Subscription error:'',
                  ToastError (or_else m ''Subscription failed'')],
               loading := False\<rparr>)"
  by (simp add: handler_defs)

text \<open>
  The state after a POST that resolved and a store that could not be read, held no
  array, or did not take the write: the \<^verbatim>\<open>catch\<close> branch has run.
\<close>

lemma settle_thrown:
  assumes "ledger w = None \<or> storageBlocked rt \<or>
      (\<exists>xs. ledger w = Some xs \<and> \<not> storageAccepts rt (localStorage w) ''payments''
           (JsonText (JArr (xs @ [newPayment rt pub (ticks w)]))))"
  shows "handlePayNow_settle rt pub nm (Resolved ()) w =
     Normal (w\<lparr>ticks := ticks w + 4,
        effects := effects w @ [ConsoleError ''Subscription error:'',
           ToastError ''Subscription failed''],
        loading := False\<rparr>)"
proof (cases "storageBlocked rt")
  case True
  then show ?thesis
    by (simp add: handler_defs Let_def or_else_def)
next
  case open_store: False
  show ?thesis
  proof (cases "ledger w")
    case None
    from no_ledger_cases [OF this, of "newPayment rt pub (ticks w)"] show ?thesis
    proof (elim disjE exE conjE)
      assume "parse_stored (localStorage w ''payments'') = Inl SyntaxError"
      with open_store show ?thesis
        by (simp add: handler_defs Let_def or_else_def)
    next
      fix v
      assume "parse_stored (localStorage w ''payments'') = Inr v"
        and "push v (newPayment rt pub (ticks w)) = Inl TypeError"
      with open_store show ?thesis
        by (simp add: handler_defs Let_def or_else_def)
    qed
  next
    case (Some xs)
    with assms open_store
    have "\<not> storageAccepts rt (localStorage w) ''payments''
           (JsonText (JArr (xs @ [newPayment rt pub (ticks w)])))"
      by auto
    with open_store ledger_cases [OF Some] show ?thesis
      by (simp add: handler_defs Let_def or_else_def)
  qed
qed

lemma settle_resolved_cases:
  "(\<exists>xs. ledger w = Some xs \<and> \<not> storageBlocked rt \<and>
      storageAccepts rt (localStorage w) ''payments''
        (JsonText (JArr (xs @ [newPayment rt pub (ticks w)])))) \<or>
   (ledger w = None \<or> storageBlocked rt \<or>
      (\<exists>xs. ledger w = Some xs \<and> \<not> storageAccepts rt (localStorage w) ''payments''
           (JsonText (JArr (xs @ [newPayment rt pub (ticks w)])))))"
  by (cases "ledger w") auto

subsection \<open>The host of the examples, evaluated\<close>

lemma host_record:
  "newPayment host daily_times 0 =
     JObj [(''id'', JStr ''1762041600000''), (''subscriptionName'', JStr ''Daily Times''),
           (''amount'', JNum 100), (''dueDate'', JStr ''2025-12-02T00:00:00.001Z''),
           (''status'', JStr ''paid''), (''paidDate'', JStr ''2025-11-02T00:00:00.003Z'')]"
  by code_simp


lemma iso_2025_11_02: "utc_toISOString 1762041600000 = ''2025-11-02T00:00:00.000Z''"
  by code_simp

subsection \<open>The fixtures are states of the running component\<close>

lemma asha_dialog_reached:
  "run_world rt (open_dialog ''Asha'') (mount ls) = Some (asha_dialog ls)"
  by (simp add: run_world_def handler_defs fixture_defs handleSubscribeClick_def modal_def
      remove_nth_def data_or_empty_def trim_Asha)

lemma padded_dialog_reached:
  "run_world rt (open_dialog '' Asha '') (mount no_storage) = Some padded_dialog"
  by (simp add: run_world_def handler_defs fixture_defs handleSubscribeClick_def modal_def
      remove_nth_def data_or_empty_def trim_padded)

lemma blank_dialog_reached:
  "run_world rt [TypeName ''  ''] (asha_dialog no_storage) = Some blank_dialog"
  by (simp add: run_world_def handler_defs fixture_defs modal_def trim_blank)

lemma asha_in_flight_reached:
  "run_world rt [ClickPayNow] (asha_dialog ls) = Some (asha_in_flight ls)"
  by (simp add: run_world_def handler_defs fixture_defs modal_def payNow_disabled_def
      isSubscribed_def trim_Asha)

lemma ash_while_submitting_reached:
  "run_world rt [ClickPayNow, TypeName ''Ash'',
      Reply 1 (SubsData (Some [sub_of ''p1'' ''Ash'']))] (asha_dialog no_storage)
   = Some ash_while_submitting"
  by (simp add: run_world_def handler_defs fixture_defs modal_def payNow_disabled_def
      isSubscribed_def remove_nth_def data_or_empty_def trim_Asha trim_Ash)

subsection \<open>Subscription Lookup\<close>

text \<open>
  C4. For every name whose trimmed value is empty, \<^verbatim>\<open>fetchSubscriptions\<close> sets the
  subscribed set to the empty list before it returns to its caller, and issues no network
  call: nothing is added to the effects and no request is left in flight.
\<close>

theorem lookup_of_blank_name_clears_locally:
  "trim nm = [] \<Longrightarrow>
     fetchSubscriptions nm w = w\<lparr>subscriptions := []\<rparr> \<and>
     subscriptions (fetchSubscriptions nm w) = [] \<and>
     effects (fetchSubscriptions nm w) = effects w \<and>
     pending (fetchSubscriptions nm w) = pending w"
  by (simp add: fetchSubscriptions_def)

theorem lookup_of_blank_name_clears_locally_witness:
  "trim ''  '' = [] \<and>
   subscriptions (fetchSubscriptions ''  '' ash_while_submitting) = [] \<and>
   effects (fetchSubscriptions ''  '' ash_while_submitting) = effects ash_while_submitting \<and>
   pending (fetchSubscriptions ''  '' ash_while_submitting) = [SubscribeReq daily_times ''Asha'']"
  using lookup_of_blank_name_clears_locally [OF trim_blank, of ash_while_submitting]
  by (simp add: trim_blank ash_while_submitting_def)

text \<open>
  C7. For every lookup with a name that is not empty after trimming, the request is
  issued and the subscribed set is not touched; when the request fails, whatever the
  state \<open>w'\<close> at that moment, a notification is shown (the server's message, else
  "Failed to fetch subscriptions") and the subscribed set keeps the value it has.
\<close>

theorem failed_lookup_keeps_subscribed_set:
  "trim nm \<noteq> [] \<Longrightarrow>
     effects (fetchSubscriptions nm w) = effects w @ [GetSubscriptions nm] \<and>
     pending (fetchSubscriptions nm w) = pending w @ [SubsReq] \<and>
     subscriptions (fetchSubscriptions nm w) = subscriptions w \<and>
     (\<exists>w''. fetchSubscriptions_settle (Rejected m) w' = Normal w'' \<and>
        subscriptions w'' = subscriptions w' \<and>
        effects w'' = effects w' @ [ConsoleError ''Error fetching subscriptions:'',
           ToastError (or_else m ''Failed to fetch subscriptions'')])"
  by (simp add: handler_defs)

theorem failed_lookup_keeps_subscribed_set_witness:
  "trim ''Ash'' \<noteq> [] \<and>
   subscriptions (fetchSubscriptions ''Ash'' ash_while_submitting) = [sub_of ''p1'' ''Ash''] \<and>
   subscriptions (world_of (fetchSubscriptions_settle (Rejected None)
      (fetchSubscriptions ''Ash'' ash_while_submitting))) = [sub_of ''p1'' ''Ash''] \<and>
   effects (world_of (fetchSubscriptions_settle (Rejected None) ash_while_submitting)) =
      effects ash_while_submitting @ [ConsoleError ''Error fetching subscriptions:'',
         ToastError ''Failed to fetch subscriptions'']"
proof -
  have h: "trim ''Ash'' \<noteq> []"
    by (simp add: trim_Ash)
  from failed_lookup_keeps_subscribed_set [OF h, of ash_while_submitting None
      "fetchSubscriptions ''Ash'' ash_while_submitting"]
    failed_lookup_keeps_subscribed_set [OF h, of ash_while_submitting None ash_while_submitting]
  show ?thesis
    using h by (auto simp: or_else_def ash_while_submitting_def)
qed

subsection \<open>Subscribing: the guards\<close>

text \<open>
  The handler as a function: with a blank name it shows the validation message; with a
  name and no selection the second guard, \<^verbatim>\<open>if (!selectedPub) return;\<close>, returns in
  silence; in both cases it issues no request.
\<close>

lemma handlePayNow_guards:
  "trim (customerNameInput w) = [] \<or> selectedPub w = None \<Longrightarrow>
     handlePayNow w =
       (if trim (customerNameInput w) = [] then emit (ToastError ''Please enter your name'') w
        else w) \<and>
     requests (handlePayNow w) = requests w \<and>
     pending (handlePayNow w) = pending w \<and>
     loading (handlePayNow w) = loading w"
  by (auto simp: handler_defs requests_def)

text \<open>
  The page calls the handler only from the Pay Now button, which exists only in a dialog
  rendered for a selected publication: no click reaches the second guard.
\<close>

lemma pay_now_click_has_selection:
  "exec rt ClickPayNow w = Some c \<Longrightarrow> selectedPub w \<noteq> None \<and> c = Normal (handlePayNow w)"
  by (auto simp: modal_def split: option.splits if_splits)

text \<open>
  C5. For every invocation of \<^verbatim>\<open>handlePayNow\<close> the page makes (a click on the Pay Now
  button of a state \<open>w\<close>) that violates a precondition (no publication selected, or the
  name empty after trimming): the handler shows the validation message "Please enter your
  name" and does nothing else; it issues no request, leaves none in flight, does not set
  \<^verbatim>\<open>loading\<close> and does not touch \<^verbatim>\<open>localStorage\<close>.
\<close>

theorem invalid_subscribe_click_stays_local:
  assumes "exec rt ClickPayNow w = Some c"
    and "trim (customerNameInput w) = [] \<or> selectedPub w = None"
  shows "c = Normal (emit (ToastError ''Please enter your name'') w) \<and>
     effects (world_of c) = effects w @ [ToastError ''Please enter your name''] \<and>
     requests (world_of c) = requests w \<and>
     pending (world_of c) = pending w \<and>
     loading (world_of c) = loading w \<and>
     localStorage (world_of c) = localStorage w"
proof -
  from assms(1) have sel: "selectedPub w \<noteq> None" and c: "c = Normal (handlePayNow w)"
    using pay_now_click_has_selection by blast+
  with assms(2) have blank: "trim (customerNameInput w) = []"
    by simp
  with handlePayNow_guards [of w]
  have "handlePayNow w = emit (ToastError ''Please enter your name'') w"
    by simp
  with c show ?thesis
    by (simp add: emit_def requests_def)
qed

theorem invalid_subscribe_click_stays_local_witness:
  "exec host ClickPayNow blank_dialog =
     Some (Normal (emit (ToastError ''Please enter your name'') blank_dialog)) \<and>
   trim (customerNameInput blank_dialog) = [] \<and>
   effects (emit (ToastError ''Please enter your name'') blank_dialog) =
     [GetPublications, GetSubscriptions ''Asha'', ToastError ''Please enter your name''] \<and>
   pending (emit (ToastError ''Please enter your name'') blank_dialog) = [] \<and>
   \<not> loading (emit (ToastError ''Please enter your name'') blank_dialog)"
proof -
  have e: "exec host ClickPayNow blank_dialog =
     Some (Normal (emit (ToastError ''Please enter your name'') blank_dialog))"
    by (simp add: handler_defs fixture_defs modal_def payNow_disabled_def isSubscribed_def
        trim_blank)
  have b: "trim (customerNameInput blank_dialog) = []"
    by (simp add: fixture_defs trim_blank)
  from invalid_subscribe_click_stays_local [OF e disjI1 [OF b]]
  show ?thesis
    using e b by (simp add: emit_def fixture_defs)
qed

subsection \<open>Subscribing: a rejected POST\<close>

text \<open>
  C2. When the POST is rejected, whatever the state \<open>w\<close> at that moment: nothing is
  written to \<^verbatim>\<open>localStorage\<close>, so the ledger is unchanged; no \<^verbatim>\<open>billsUpdated\<close> event is
  dispatched; the dialog is rendered as before (\<^verbatim>\<open>showModal\<close> and \<^verbatim>\<open>selectedPub\<close> are not
  written); the error is logged and one toast is shown, with the server's message when
  there is one and it is not the empty string, else with "Subscription failed".
\<close>

theorem rejected_post_changes_no_ledger:
  "\<exists>w'. handlePayNow_settle rt pub nm (Rejected m) w = Normal w' \<and>
     localStorage w' = localStorage w \<and>
     ledger w' = ledger w \<and>
     modal w' = modal w \<and>
     count_effect (DispatchEvent ''billsUpdated'') w' =
       count_effect (DispatchEvent ''billsUpdated'') w \<and>
     effects w' = effects w @ [ConsoleError ''Subscription error:'',
        ToastError (case m of None \<Rightarrow> ''Subscription failed''
                    | Some s \<Rightarrow> if s = [] then ''Subscription failed'' else s)] \<and>
     \<not> loading w'"
  by (simp add: settle_rejected ledger_def modal_def count_effect_def or_else_def
      split: option.splits)

text \<open>Scenario C of the specification: the server answers "Already active".\<close>

theorem rejected_post_changes_no_ledger_witness:
  "run_world host [ClickPayNow, Reply 0 (Failure (Some ''Already active''))]
       (asha_dialog no_storage) =
     Some (asha_dialog no_storage
       \<lparr>effects := [GetPublications, GetSubscriptions ''Asha'', PostSubscribe ''Asha'' ''p1'' 100,
           ConsoleError ''Subscription error:'', ToastError ''Already active'']\<rparr>)"
  using rejected_post_changes_no_ledger [of host daily_times "''Asha''" "Some ''Already active''"
      "asha_dialog no_storage\<lparr>loading := True,
         effects := [GetPublications, GetSubscriptions ''Asha'', PostSubscribe ''Asha'' ''p1'' 100]\<rparr>"]
  by (simp add: run_world_def settle_rejected handlePayNow_def emit_def await_def or_else_def
      fixture_defs modal_def payNow_disabled_def isSubscribed_def remove_nth_def trim_Asha)

subsection \<open>Subscribing: a POST that resolved\<close>




text \<open>
  C10 (as amended). When the text stored under \<^verbatim>\<open>payments\<close> is not empty and is not
  valid JSON, and the POST has resolved, the \<^verbatim>\<open>try\<close> block throws (\<^verbatim>\<open>JSON.parse\<close>, or the
  store itself) and the \<^verbatim>\<open>catch\<close> branch runs: the toast is the generic "Subscription
  failed", nothing is written to \<^verbatim>\<open>localStorage\<close>, no \<^verbatim>\<open>billsUpdated\<close> event is dispatched
  and the dialog is rendered as before, although the server has accepted the
  subscription.
\<close>

theorem unparsable_ledger_takes_failure_branch:
  "localStorage w ''payments'' = Some NotJson \<Longrightarrow>
   \<exists>w'. handlePayNow_settle rt pub nm (Resolved ()) w = Normal w' \<and>
     effects w' = effects w @ [ConsoleError ''Subscription error:'',
        ToastError ''Subscription failed''] \<and>
     localStorage w' = localStorage w \<and>
     ledger w' = None \<and>
     count_effect (DispatchEvent ''billsUpdated'') w' =
       count_effect (DispatchEvent ''billsUpdated'') w \<and>
     modal w' = modal w \<and>
     \<not> loading w'"
proof -
  assume "localStorage w ''payments'' = Some NotJson"
  then have none: "ledger w = None"
    by (simp add: ledger_def parse_stored_def)
  from settle_thrown [OF disjI1 [OF none]] none show ?thesis
    by (simp add: ledger_def modal_def count_effect_def)
qed

theorem unparsable_ledger_takes_failure_branch_witness:
  "localStorage (asha_dialog corrupt_storage) ''payments'' = Some NotJson \<and>
   run_world host [ClickPayNow, Reply 0 PostOk] (asha_dialog corrupt_storage) =
     Some (asha_dialog corrupt_storage
       \<lparr>effects := sent ''Asha'' @ [ConsoleError ''Subscription error:'',
           ToastError ''Subscription failed''],
        ticks := 4\<rparr>)"
  using unparsable_ledger_takes_failure_branch [of "asha_submitting corrupt_storage"
      host daily_times "''Asha''"]
  by (simp add: run_world_def handler_defs Let_def parse_stored_def or_else_def host_store
      fixture_defs modal_def payNow_disabled_def isSubscribed_def remove_nth_def trim_Asha)

text \<open>
  The claim as stated fails: the empty string is not valid JSON, yet over it the handler
  takes the success branch (\<^verbatim>\<open>|| "[]"\<close> reads it as an empty ledger): the record is stored,
  the event dispatched once and the dialog closed.
\<close>

theorem empty_text_takes_success_branch:
  "localStorage (asha_dialog blank_storage) ''payments'' = Some EmptyString \<and>
   map_option ledger (run_world host [ClickPayNow, Reply 0 PostOk] (asha_dialog blank_storage)) =
     Some (Some [newPayment host daily_times 0]) \<and>
   map_option (count_effect (DispatchEvent ''billsUpdated''))
     (run_world host [ClickPayNow, Reply 0 PostOk] (asha_dialog blank_storage)) = Some 1 \<and>
   map_option modal (run_world host [ClickPayNow, Reply 0 PostOk] (asha_dialog blank_storage)) =
     Some None"
  by (simp add: run_world_def handler_defs Let_def parse_stored_def ledger_def count_effect_def
      host_store fixture_defs modal_def payNow_disabled_def isSubscribed_def remove_nth_def
      trim_Asha)

text \<open>
  C6 (as amended). A call of \<^verbatim>\<open>handlePayNow\<close> that passes the guards POSTs exactly the
  body \<open>customerName\<close> = the trimmed name, \<open>publicationId\<close> = the selected publication's
  id, \<open>amount\<close> = its monthly price, and nothing else. When the POST has resolved and
  the ledger has been extended, the lookup is run again with the name as it stood in the
  field when Pay Now was clicked, untrimmed; this is the name sent to the server only
  when the field had no white space around the name. The ledger is extended exactly when
  the stored text is an array (or absent, or empty) and the store is open and takes the
  write.
\<close>

theorem subscribe_posts_trimmed_and_looks_up_typed_name:
  assumes "selectedPub w = Some pub" and "trim (customerNameInput w) \<noteq> []"
  shows "effects (handlePayNow w) = effects w @
           [PostSubscribe (trim (customerNameInput w)) (pub_id pub) (monthlyPrice pub)] \<and>
         pending (handlePayNow w) = pending w @ [SubscribeReq pub (customerNameInput w)] \<and>
         (ledger w1 = Some xs \<and> \<not> storageBlocked rt \<and>
          storageAccepts rt (localStorage w1) ''payments''
            (JsonText (JArr (xs @ [newPayment rt pub (ticks w1)]))) \<longrightarrow>
            (\<exists>w'. handlePayNow_settle rt pub (customerNameInput w) (Resolved ()) w1 = Normal w' \<and>
                requests w' = requests w1 @ [GetSubscriptions (customerNameInput w)] \<and>
                pending w' = pending w1 @ [SubsReq])) \<and>
         (\<exists>w'. handlePayNow_settle rt pub (customerNameInput w) (Resolved ()) w1 = Normal w' \<and>
            (ledger w' \<noteq> ledger w1 \<longrightarrow>
               requests w' = requests w1 @ [GetSubscriptions (customerNameInput w)] \<and>
               pending w' = pending w1 @ [SubsReq]))"
proof -
  have start: "effects (handlePayNow w) = effects w @
           [PostSubscribe (trim (customerNameInput w)) (pub_id pub) (monthlyPrice pub)] \<and>
         pending (handlePayNow w) = pending w @ [SubscribeReq pub (customerNameInput w)]"
    using assms by (simp add: handler_defs)
  have good: "\<exists>w'. handlePayNow_settle rt pub (customerNameInput w) (Resolved ()) w1 = Normal w' \<and>
                requests w' = requests w1 @ [GetSubscriptions (customerNameInput w)] \<and>
                pending w' = pending w1 @ [SubsReq]"
    if "ledger w1 = Some xs" "\<not> storageBlocked rt"
      "storageAccepts rt (localStorage w1) ''payments''
            (JsonText (JArr (xs @ [newPayment rt pub (ticks w1)])))" for xs
    using assms(2) by (simp add: settle_success [OF that] requests_def)
  have bad: "\<exists>w'. handlePayNow_settle rt pub (customerNameInput w) (Resolved ()) w1 = Normal w' \<and>
      ledger w' = ledger w1"
    if "ledger w1 = None \<or> storageBlocked rt \<or>
      (\<exists>xs. ledger w1 = Some xs \<and> \<not> storageAccepts rt (localStorage w1) ''payments''
           (JsonText (JArr (xs @ [newPayment rt pub (ticks w1)]))))"
    by (simp add: settle_thrown [OF that] ledger_def)
  from settle_resolved_cases [of w1 rt pub]
  have "\<exists>w'. handlePayNow_settle rt pub (customerNameInput w) (Resolved ()) w1 = Normal w' \<and>
            (ledger w' \<noteq> ledger w1 \<longrightarrow>
               requests w' = requests w1 @ [GetSubscriptions (customerNameInput w)] \<and>
               pending w' = pending w1 @ [SubsReq])"
  proof
    assume "\<exists>xs. ledger w1 = Some xs \<and> \<not> storageBlocked rt \<and>
      storageAccepts rt (localStorage w1) ''payments''
        (JsonText (JArr (xs @ [newPayment rt pub (ticks w1)])))"
    then show ?thesis using good by blast
  next
    assume "ledger w1 = None \<or> storageBlocked rt \<or>
      (\<exists>xs. ledger w1 = Some xs \<and> \<not> storageAccepts rt (localStorage w1) ''payments''
           (JsonText (JArr (xs @ [newPayment rt pub (ticks w1)]))))"
    from bad [OF this] show ?thesis by blast
  qed
  with start good show ?thesis by blast
qed

theorem subscribe_posts_trimmed_and_looks_up_typed_name_witness:
  "selectedPub (asha_dialog old_storage) = Some daily_times \<and>
   trim (customerNameInput (asha_dialog old_storage)) \<noteq> [] \<and>
   ledger (asha_submitting old_storage) = Some [old_entry] \<and>
   \<not> storageBlocked host \<and>
   storageAccepts host (localStorage (asha_submitting old_storage)) ''payments''
     (JsonText (JArr [old_entry, newPayment host daily_times 0])) \<and>
   effects (handlePayNow (asha_dialog old_storage)) = sent ''Asha'' \<and>
   ledger (world_of (handlePayNow_settle host daily_times ''Asha'' (Resolved ())
      (asha_submitting old_storage))) \<noteq> ledger (asha_submitting old_storage) \<and>
   requests (world_of (handlePayNow_settle host daily_times ''Asha'' (Resolved ())
      (asha_submitting old_storage))) = sent ''Asha'' @ [GetSubscriptions ''Asha'']"
proof -
  have h1: "selectedPub (asha_dialog old_storage) = Some daily_times"
    by (simp add: asha_dialog_def)
  have h2: "trim (customerNameInput (asha_dialog old_storage)) \<noteq> []"
    by (simp add: asha_dialog_def trim_Asha)
  have h3: "ledger (asha_submitting old_storage) = Some [old_entry]"
    by (simp add: ledger_def parse_stored_def fixture_defs)
  have o: "\<not> storageBlocked host" and a: "\<And>held k v. storageAccepts host held k v"
    by (simp_all add: host_store)
  have e: "effects (handlePayNow (asha_dialog old_storage)) = sent ''Asha''"
    by (simp add: handler_defs fixture_defs trim_Asha)
  have r: "requests (asha_submitting old_storage) = sent ''Asha''"
    by (simp add: requests_def fixture_defs)
  have n: "customerNameInput (asha_dialog old_storage) = ''Asha''"
    by (simp add: asha_dialog_def)
  have l: "ledger (world_of (handlePayNow_settle host daily_times ''Asha'' (Resolved ())
      (asha_submitting old_storage))) \<noteq> ledger (asha_submitting old_storage)"
    by (simp only: settle_success [OF h3 o a] world_of.simps)
       (simp add: ledger_def parse_stored_def fixture_defs)
  from subscribe_posts_trimmed_and_looks_up_typed_name [OF h1 h2,
      of "asha_submitting old_storage" "[old_entry]" host]
  obtain w' where "handlePayNow_settle host daily_times (customerNameInput (asha_dialog old_storage))
        (Resolved ()) (asha_submitting old_storage) = Normal w'"
      "ledger w' \<noteq> ledger (asha_submitting old_storage) \<longrightarrow>
         requests w' = requests (asha_submitting old_storage) @
            [GetSubscriptions (customerNameInput (asha_dialog old_storage))]"
    by blast
  with l n r have "requests (world_of (handlePayNow_settle host daily_times ''Asha''
      (Resolved ()) (asha_submitting old_storage))) = sent ''Asha'' @ [GetSubscriptions ''Asha'']"
    by simp
  with h1 h2 h3 o a e l show ?thesis
    by simp
qed

text \<open>
  The claim as stated fails: with " Asha " in the field, the server is sent "Asha" and the
  lookup that follows asks for " Asha ".
\<close>

theorem lookup_after_subscribe_is_untrimmed:
  "map_option requests (run_world host [ClickPayNow, Reply 0 PostOk] padded_dialog) =
     Some [GetPublications, GetSubscriptions '' Asha '', PostSubscribe ''Asha'' ''p1'' 100,
           GetSubscriptions '' Asha '']"
  by (simp add: run_world_def handler_defs Let_def parse_stored_def requests_def host_store
      fixture_defs modal_def payNow_disabled_def isSubscribed_def remove_nth_def trim_padded)

subsection \<open>The Dedup Guard and the Pay Now button\<close>

text \<open>
  C3 (as amended). \<^verbatim>\<open>isSubscribed\<close> is true of an id exactly when some subscription of the
  current subscribed set refers to a publication of that id. Whenever it is true of a
  publication, the Pay Now button of that publication's dialog is disabled, and its text
  is "Already Subscribed" unless a submission is in progress (\<^verbatim>\<open>loading\<close>), when it is
  "Processing...".
\<close>

theorem dedup_guard_disables_pay_now:
  "isSubscribed w p = (\<exists>sub \<in> set (subscriptions w). ref_id (publication sub) = p) \<and>
   (isSubscribed w (pub_id pub) \<longrightarrow>
      payNow_disabled w pub \<and>
      payNow_label w pub = (if loading w then ''Processing...'' else ''Already Subscribed''))"
  by (simp add: isSubscribed_def payNow_disabled_def payNow_label_def list_ex_iff)

theorem dedup_guard_disables_pay_now_witness:
  "isSubscribed (ash_while_submitting\<lparr>loading := False\<rparr>) (pub_id daily_times) \<and>
   payNow_disabled (ash_while_submitting\<lparr>loading := False\<rparr>) daily_times \<and>
   payNow_label (ash_while_submitting\<lparr>loading := False\<rparr>) daily_times = ''Already Subscribed''"
  using dedup_guard_disables_pay_now [of "ash_while_submitting\<lparr>loading := False\<rparr>"
      "''p1''" daily_times]
  by (simp add: isSubscribed_def fixture_defs)

text \<open>
  The claim as stated fails in a state the component reaches
  (\<open>ash_while_submitting_reached\<close>): the guard is true of the selected publication and
  the button reads "Processing...".
\<close>

theorem subscribed_while_loading_reads_processing:
  "modal ash_while_submitting = Some daily_times \<and>
   isSubscribed ash_while_submitting (pub_id daily_times) \<and>
   payNow_label ash_while_submitting daily_times = ''Processing...'' \<and>
   payNow_label ash_while_submitting daily_times \<noteq> ''Already Subscribed''"
  by (simp add: isSubscribed_def payNow_label_def modal_def fixture_defs)

subsection \<open>Every handler completes normally\<close>

lemma publications_settle_normal:
  "\<exists>w'. fetchPublications_settle resp w = Normal w' \<and> loading w' = loading w \<and>
     pending w' = pending w"
  by (cases resp) (auto simp: handler_defs)

lemma subscriptions_settle_normal:
  "\<exists>w'. fetchSubscriptions_settle resp w = Normal w' \<and> loading w' = loading w \<and>
     publications w' = publications w \<and> pending w' = pending w"
  by (cases resp) (auto simp: handler_defs)

lemma payNow_settle_normal:
  "\<exists>w'. handlePayNow_settle rt pub nm resp w = Normal w' \<and> \<not> loading w' \<and>
     publications w' = publications w \<and>
     filter is_subscribe (pending w') = filter is_subscribe (pending w) \<and>
     filter is_pubs (pending w') = filter is_pubs (pending w)"
proof (cases resp)
  case (Rejected m)
  then show ?thesis by (simp add: settle_rejected)
next
  case (Resolved u)
  from settle_resolved_cases [of w rt pub] show ?thesis
  proof
    assume "\<exists>xs. ledger w = Some xs \<and> \<not> storageBlocked rt \<and>
      storageAccepts rt (localStorage w) ''payments''
        (JsonText (JArr (xs @ [newPayment rt pub (ticks w)])))"
    then obtain xs where "ledger w = Some xs" "\<not> storageBlocked rt"
      "storageAccepts rt (localStorage w) ''payments''
        (JsonText (JArr (xs @ [newPayment rt pub (ticks w)])))"
      by blast
    from settle_success [OF this] Resolved show ?thesis by simp
  next
    assume "ledger w = None \<or> storageBlocked rt \<or>
      (\<exists>xs. ledger w = Some xs \<and> \<not> storageAccepts rt (localStorage w) ''payments''
           (JsonText (JArr (xs @ [newPayment rt pub (ticks w)]))))"
    from settle_thrown [OF this] Resolved show ?thesis by simp
  qed
qed

subsection \<open>The invariant holds along every run\<close>

lemma filter_remove_nth:
  assumes "i < length xs"
  shows "length (filter P (remove_nth i xs)) =
         length (filter P xs) - (if P (xs ! i) then 1 else 0)"
proof -
  from assms have "xs = take i xs @ xs ! i # drop (Suc i) xs"
    by (rule id_take_nth_drop)
  then have "filter P xs = filter P (take i xs) @ filter P [xs ! i] @ filter P (drop (Suc i) xs)"
    by (metis append_Cons append_Nil filter_append)
  then show ?thesis
    by (simp add: remove_nth_def)
qed

lemma submitting_iff: "submitting w = (0 < in_flight is_subscribe w)"
  by (simp add: submitting_def in_flight_def list_ex_iff filter_empty_conv)

lemma inv_mount: "inv (mount ls)"
  by (simp add: inv_def mount_def initial_def in_flight_def handler_defs)

lemma handlePayNow_inv:
  assumes "inv w" and "\<not> loading w"
  shows "inv (handlePayNow w)"
  using assms
  by (auto simp: inv_def in_flight_def handler_defs split: option.splits if_splits)

lemma fetchSubscriptions_inv:
  "inv w \<Longrightarrow> inv (fetchSubscriptions nm (w\<lparr>customerNameInput := v\<rparr>))"
  by (auto simp: inv_def in_flight_def handler_defs split: if_splits)

lemma deliver_inv:
  assumes "inv w" and "i < length (pending w)"
    and "deliver rt (pending w ! i) r (w\<lparr>pending := remove_nth i (pending w)\<rparr>) = Some c"
  shows "\<exists>w'. c = Normal w' \<and> inv w' \<and> (is_subscribe (pending w ! i) \<longrightarrow> \<not> loading w')"
proof -
  let ?w = "w\<lparr>pending := remove_nth i (pending w)\<rparr>"
  have cnt: "\<And>P. length (filter P (pending ?w)) =
      length (filter P (pending w)) - (if P (pending w ! i) then 1 else 0)"
    using assms(2) by (simp add: filter_remove_nth)
  show ?thesis
  proof (cases "pending w ! i")
    case PubsReq
    then obtain resp where c: "c = fetchPublications_settle resp ?w"
      using assms(3) by (cases r) auto
    obtain w' where w': "fetchPublications_settle resp ?w = Normal w'"
      "loading w' = loading ?w" "pending w' = pending ?w"
      using publications_settle_normal by blast
    have "in_flight is_pubs w' = 0"
      using assms(1) cnt[of is_pubs] PubsReq w' by (simp add: inv_def in_flight_def)
    moreover have "in_flight is_subscribe w' = in_flight is_subscribe w"
      using cnt[of is_subscribe] PubsReq w' by (simp add: in_flight_def)
    ultimately have "inv w'"
      using assms(1) w' by (simp add: inv_def)
    then show ?thesis using c w' PubsReq by simp
  next
    case SubsReq
    then obtain resp where c: "c = fetchSubscriptions_settle resp ?w"
      using assms(3) by (cases r) auto
    obtain w' where w': "fetchSubscriptions_settle resp ?w = Normal w'"
      "loading w' = loading ?w" "publications w' = publications ?w" "pending w' = pending ?w"
      using subscriptions_settle_normal by blast
    have "in_flight is_pubs w' = in_flight is_pubs w"
      using cnt[of is_pubs] SubsReq w' by (simp add: in_flight_def)
    moreover have "in_flight is_subscribe w' = in_flight is_subscribe w"
      using cnt[of is_subscribe] SubsReq w' by (simp add: in_flight_def)
    ultimately have "inv w'"
      using assms(1) w' by (simp add: inv_def)
    then show ?thesis using c w' SubsReq by simp
  next
    case (SubscribeReq pub nm)
    then obtain resp where c: "c = handlePayNow_settle rt pub nm resp ?w"
      using assms(3) by (cases r) auto
    obtain w' where w': "handlePayNow_settle rt pub nm resp ?w = Normal w'"
      "\<not> loading w'" "publications w' = publications ?w"
      "filter is_subscribe (pending w') = filter is_subscribe (pending ?w)"
      "filter is_pubs (pending w') = filter is_pubs (pending ?w)"
      using payNow_settle_normal by blast
    have "in_flight is_pubs w' = in_flight is_pubs w"
      using cnt[of is_pubs] SubscribeReq w' by (simp add: in_flight_def)
    moreover have "in_flight is_subscribe w' = 0"
      using assms(1) cnt[of is_subscribe] SubscribeReq w'
      by (simp add: inv_def in_flight_def split: if_splits)
    ultimately have "inv w'"
      using assms(1) w' by (simp add: inv_def)
    then show ?thesis using c w' by simp
  qed
qed

lemma inv_cong:
  "pending w' = pending w \<Longrightarrow> loading w' = loading w \<Longrightarrow> publications w' = publications w
   \<Longrightarrow> inv w' = inv w"
  by (simp add: inv_def in_flight_def)

lemma exec_inv:
  assumes "inv w" and "exec rt a w = Some c"
  shows "\<exists>w'. c = Normal w' \<and> inv w'"
proof (cases a)
  case (ClickSubscribe pub)
  with assms(2) have "c = Normal (handleSubscribeClick pub w)"
    by (simp split: if_splits)
  moreover have "inv (handleSubscribeClick pub w)"
    using assms(1) inv_cong [of "handleSubscribeClick pub w" w]
    by (simp add: handleSubscribeClick_def)
  ultimately show ?thesis by blast
next
  case ClickClose
  with assms(2) have "c = Normal (w\<lparr>showModal := False\<rparr>)"
    by (simp split: option.splits)
  moreover have "inv (w\<lparr>showModal := False\<rparr>)"
    using assms(1) inv_cong [of "w\<lparr>showModal := False\<rparr>" w] by simp
  ultimately show ?thesis by blast
next
  case (TypeName v)
  with assms(2) have "c = Normal (fetchSubscriptions v (w\<lparr>customerNameInput := v\<rparr>))"
    by (simp split: option.splits)
  with assms(1) show ?thesis
    using fetchSubscriptions_inv by blast
next
  case (ChoosePayment m)
  with assms(2) have "c = Normal (w\<lparr>paymentMethod := m\<rparr>)"
    by (simp split: option.splits)
  moreover have "inv (w\<lparr>paymentMethod := m\<rparr>)"
    using assms(1) inv_cong [of "w\<lparr>paymentMethod := m\<rparr>" w] by simp
  ultimately show ?thesis by blast
next
  case ClickPayNow
  with assms(2) obtain pub where "modal w = Some pub" "\<not> payNow_disabled w pub"
    "c = Normal (handlePayNow w)"
    by (auto split: option.splits if_splits)
  then show ?thesis
    using assms(1) handlePayNow_inv by (auto simp: payNow_disabled_def)
next
  case (Reply i r)
  with assms(2) have "i < length (pending w)"
    "deliver rt (pending w ! i) r (w\<lparr>pending := remove_nth i (pending w)\<rparr>) = Some c"
    by (simp_all split: if_splits)
  with assms(1) show ?thesis
    using deliver_inv by blast
qed

lemma run_inv:
  "inv w \<Longrightarrow> run rt as w = Some c \<Longrightarrow> \<exists>w'. c = Normal w' \<and> inv w'"
proof (induction as arbitrary: w)
  case Nil
  then show ?case by auto
next
  case (Cons a as)
  from Cons.prems(2) obtain c1 where c1: "exec rt a w = Some c1"
    by (auto split: option.splits)
  with Cons.prems(1) obtain w1 where w1: "c1 = Normal w1" "inv w1"
    using exec_inv by blast
  with c1 Cons.prems(2) have "run rt as w1 = Some c" by simp
  with w1 show ?case using Cons.IH by blast
qed

lemma deliver_subscribe_enabled:
  assumes "i < length (pending w)" and "is_subscribe (pending w ! i)"
  shows "exec rt (Reply i PostOk) w \<noteq> None \<and> exec rt (Reply i (Failure m)) w \<noteq> None"
  using assms by (cases "pending w ! i") auto

lemma loading_blocks_pay_now: "loading w \<Longrightarrow> exec rt ClickPayNow w = None"
  by (simp add: payNow_disabled_def split: option.splits)

lemma pay_now_starts_submission:
  assumes "exec rt ClickPayNow w = Some (Normal w')" and "trim (customerNameInput w) \<noteq> []"
  shows "loading w' \<and> submitting w'"
proof -
  from assms(1) obtain pub where "modal w = Some pub" and w': "w' = handlePayNow w"
    by (auto split: option.splits if_splits)
  then have "selectedPub w = Some pub"
    by (simp add: modal_Some)
  with assms(2) w' show ?thesis
    by (simp add: handler_defs submitting_def)
qed

lemma settled_submission_clears_loading:
  assumes "inv w" and "i < length (pending w)" and "is_subscribe (pending w ! i)"
    and "exec rt (Reply i r) w = Some c"
  shows "\<exists>w'. c = Normal w' \<and> \<not> loading w' \<and> \<not> submitting w'"
proof -
  from assms(2,4)
  have "deliver rt (pending w ! i) r (w\<lparr>pending := remove_nth i (pending w)\<rparr>) = Some c"
    by simp
  with assms(1,2,3) obtain w' where "c = Normal w'" "inv w'" "\<not> loading w'"
    using deliver_inv by blast
  then show ?thesis
    by (auto simp: inv_def submitting_iff)
qed

lemma failed_catalogue_leaves_list_empty:
  assumes "inv w" and "i < length (pending w)" and "pending w ! i = PubsReq"
  shows "\<exists>w'. exec rt (Reply i (Failure m)) w = Some (Normal w') \<and> publications w' = [] \<and>
     subscriptions w' = subscriptions w \<and>
     effects w' = effects w @ [ConsoleError ''Error fetching publications:'',
        ToastError (or_else m ''Failed to fetch available publications'')]"
proof -
  have "is_pubs (pending w ! i)"
    using assms(3) by simp
  moreover have "pending w ! i \<in> set (pending w)"
    using assms(2) by (rule nth_mem)
  ultimately
  have "filter is_pubs (pending w) \<noteq> []"
    by (auto simp: filter_empty_conv)
  with assms(1) have "publications w = []"
    by (simp add: inv_def in_flight_def)
  with assms(2,3) show ?thesis
    by (simp add: handler_defs)
qed

subsection \<open>Errors never escape\<close>

text \<open>
  C8 (as amended). None of the three continuations ends in an exception, whatever the
  reply and the state: each completes normally, also when the store or \<^verbatim>\<open>JSON.parse\<close>
  throws. A rejected request becomes a console line and a toast and changes nothing
  else, except that a settled POST always resets \<^verbatim>\<open>loading\<close>: the subscribed set is
  unchanged, the publication list, still empty while the catalogue request is in flight,
  stays empty, and the Pay Now button is enabled again exactly when the Dedup Guard does
  not hold for its publication (it stays disabled, reading "Already Subscribed", when
  the guard holds). No run of the mounted component stops at an uncaught exception.
\<close>

theorem no_handler_throws:
  "(\<exists>w'. fetchPublications_settle r1 w = Normal w') \<and>
   (\<exists>w'. fetchSubscriptions_settle r2 w = Normal w') \<and>
   (\<exists>w'. handlePayNow_settle rt pub nm r3 w = Normal w' \<and> \<not> loading w' \<and>
      (\<forall>p. payNow_disabled w' p = isSubscribed w' (pub_id p))) \<and>
   fetchPublications_settle (Rejected m) w =
     Normal (w\<lparr>effects := effects w @ [ConsoleError ''Error fetching publications:'',
        ToastError (or_else m ''Failed to fetch available publications'')]\<rparr>) \<and>
   fetchSubscriptions_settle (Rejected m) w =
     Normal (w\<lparr>effects := effects w @ [ConsoleError ''Error fetching subscriptions:'',
        ToastError (or_else m ''Failed to fetch subscriptions'')]\<rparr>) \<and>
   (\<exists>w'. handlePayNow_settle rt pub nm (Rejected m) w = Normal w' \<and>
      w' = w\<lparr>effects := effects w @ [ConsoleError ''Subscription error:'',
        ToastError (or_else m ''Subscription failed'')], loading := False\<rparr> \<and>
      (\<forall>p. payNow_disabled w' p = isSubscribed w (pub_id p)) \<and>
      (\<forall>p. payNow_label w' p =
         (if isSubscribed w (pub_id p) then ''Already Subscribed'' else ''Pay Now''))) \<and>
   (\<forall>as c. run rt as (mount ls) = Some c \<longrightarrow> uncaught c = None) \<and>
   (\<forall>as w1 i. run rt as (mount ls) = Some (Normal w1) \<and> i < length (pending w1) \<and>
       pending w1 ! i = PubsReq \<longrightarrow>
       (\<exists>w'. exec rt (Reply i (Failure m)) w1 = Some (Normal w') \<and> publications w' = []))"
proof -
  have "\<forall>as c. run rt as (mount ls) = Some c \<longrightarrow> uncaught c = None"
    using run_inv [OF inv_mount] by fastforce
  moreover have "\<forall>as w1 i. run rt as (mount ls) = Some (Normal w1) \<and> i < length (pending w1) \<and>
       pending w1 ! i = PubsReq \<longrightarrow>
       (\<exists>w'. exec rt (Reply i (Failure m)) w1 = Some (Normal w') \<and> publications w' = [])"
  proof (intro allI impI)
    fix as w1 i
    assume h: "run rt as (mount ls) = Some (Normal w1) \<and> i < length (pending w1) \<and>
       pending w1 ! i = PubsReq"
    then have "inv w1"
      using run_inv [OF inv_mount, of rt as ls "Normal w1"] by simp
    with h show "\<exists>w'. exec rt (Reply i (Failure m)) w1 = Some (Normal w') \<and> publications w' = []"
      using failed_catalogue_leaves_list_empty [of w1 i rt m] by blast
  qed
  moreover have "\<exists>w'. fetchPublications_settle r1 w = Normal w'"
    using publications_settle_normal by blast
  moreover have "\<exists>w'. fetchSubscriptions_settle r2 w = Normal w'"
    using subscriptions_settle_normal by blast
  moreover have "\<exists>w'. handlePayNow_settle rt pub nm r3 w = Normal w' \<and> \<not> loading w' \<and>
      (\<forall>p. payNow_disabled w' p = isSubscribed w' (pub_id p))"
  proof -
    obtain w' where "handlePayNow_settle rt pub nm r3 w = Normal w'" "\<not> loading w'"
      using payNow_settle_normal by blast
    then show ?thesis
      by (simp add: payNow_disabled_def)
  qed
  moreover have "\<exists>w'. handlePayNow_settle rt pub nm (Rejected m) w = Normal w' \<and>
      w' = w\<lparr>effects := effects w @ [ConsoleError ''Subscription error:'',
        ToastError (or_else m ''Subscription failed'')], loading := False\<rparr> \<and>
      (\<forall>p. payNow_disabled w' p = isSubscribed w (pub_id p)) \<and>
      (\<forall>p. payNow_label w' p =
         (if isSubscribed w (pub_id p) then ''Already Subscribed'' else ''Pay Now''))"
    by (simp add: settle_rejected payNow_disabled_def payNow_label_def isSubscribed_def)
  ultimately show ?thesis
    by (simp add: handler_defs)
qed

text \<open>
  A run that stops nowhere, a POST that fails after it and leaves the button enabled, and
  a catalogue request that fails on the freshly mounted page.
\<close>

theorem no_handler_throws_witness:
  "run host (open_dialog ''Asha'' @ [ClickPayNow]) (mount no_storage) =
     Some (Normal (asha_in_flight no_storage)) \<and>
   uncaught (Normal (asha_in_flight no_storage)) = None \<and>
   handlePayNow_settle host daily_times ''Asha'' (Rejected None) (asha_submitting no_storage) =
     Normal (asha_dialog no_storage
       \<lparr>effects := sent ''Asha'' @ [ConsoleError ''Subscription error:'',
           ToastError ''Subscription failed'']\<rparr>) \<and>
   \<not> payNow_disabled (asha_dialog no_storage
       \<lparr>effects := sent ''Asha'' @ [ConsoleError ''Subscription error:'',
           ToastError ''Subscription failed'']\<rparr>) daily_times \<and>
   run host [] (mount no_storage) = Some (Normal (mount no_storage)) \<and>
   0 < length (pending (mount no_storage)) \<and>
   pending (mount no_storage) ! 0 = PubsReq \<and>
   exec host (Reply 0 (Failure None)) (mount no_storage) =
     Some (Normal (initial\<lparr>localStorage := no_storage,
        effects := [GetPublications, ConsoleError ''Error fetching publications:'',
           ToastError ''Failed to fetch available publications'']\<rparr>)) \<and>
   publications (initial\<lparr>localStorage := no_storage,
        effects := [GetPublications, ConsoleError ''Error fetching publications:'',
           ToastError ''Failed to fetch available publications'']\<rparr> :: int world) = []"
  using no_handler_throws [of "Rejected None" "asha_submitting no_storage" "Rejected None" host
      daily_times "''Asha''" "Rejected None" None no_storage]
  by (simp add: handler_defs fixture_defs handleSubscribeClick_def modal_def
      payNow_disabled_def isSubscribed_def remove_nth_def data_or_empty_def or_else_def
      trim_Asha)

text \<open>
  The claim as stated fails in a state the component reaches
  (\<open>ash_while_submitting_reached\<close>): the POST fails, \<^verbatim>\<open>loading\<close> is reset, and the button
  is still disabled, because the Dedup Guard holds for the selected publication.
\<close>

theorem failed_post_can_leave_button_disabled:
  "map_option payNow_button (run_world host [Reply 0 (Failure None)] ash_while_submitting) =
     Some (Some (True, ''Already Subscribed'')) \<and>
   map_option loading (run_world host [Reply 0 (Failure None)] ash_while_submitting) =
     Some False"
  by (simp add: run_world_def settle_rejected fixture_defs payNow_button_def modal_def
      payNow_disabled_def payNow_label_def isSubscribed_def remove_nth_def)

subsection \<open>One submission at a time\<close>

text \<open>
  C9. In every state the mounted component reaches: \<^verbatim>\<open>loading\<close> is true exactly while a
  POST is in flight, and at most one is; while one is in flight the Pay Now button is
  disabled and a click on it starts nothing; a click that passes the name guard sets
  \<^verbatim>\<open>loading\<close> and puts the POST in flight; and when the reply arrives, success or failure
  (both can), the handler completes with \<^verbatim>\<open>loading\<close> false and no POST in flight.
\<close>

theorem one_submission_at_a_time:
  assumes "run rt as (mount ls) = Some c"
  shows "\<exists>w. c = Normal w \<and>
     (loading w \<longleftrightarrow> submitting w) \<and>
     in_flight is_subscribe w \<le> 1 \<and>
     (submitting w \<longrightarrow> exec rt ClickPayNow w = None \<and> (\<forall>pub. payNow_disabled w pub)) \<and>
     (\<forall>w'. exec rt ClickPayNow w = Some (Normal w') \<and> trim (customerNameInput w) \<noteq> [] \<longrightarrow>
        loading w' \<and> submitting w' \<and> exec rt ClickPayNow w' = None) \<and>
     (\<forall>i r c'. i < length (pending w) \<and> is_subscribe (pending w ! i) \<and>
        exec rt (Reply i r) w = Some c' \<longrightarrow>
        (\<exists>w'. c' = Normal w' \<and> \<not> loading w' \<and> \<not> submitting w')) \<and>
     (\<forall>i m. i < length (pending w) \<and> is_subscribe (pending w ! i) \<longrightarrow>
        exec rt (Reply i PostOk) w \<noteq> None \<and> exec rt (Reply i (Failure m)) w \<noteq> None)"
proof -
  from assms obtain w where w: "c = Normal w" "inv w"
    using run_inv [OF inv_mount] by blast
  have a: "loading w \<longleftrightarrow> submitting w"
    using w(2) by (simp add: inv_def submitting_iff split: if_splits)
  have b: "in_flight is_subscribe w \<le> 1"
    using w(2) by (simp add: inv_def split: if_splits)
  have c: "submitting w \<longrightarrow> exec rt ClickPayNow w = None \<and> (\<forall>pub. payNow_disabled w pub)"
    using a loading_blocks_pay_now [of w rt] by (auto simp: payNow_disabled_def)
  have d: "\<forall>w'. exec rt ClickPayNow w = Some (Normal w') \<and> trim (customerNameInput w) \<noteq> [] \<longrightarrow>
        loading w' \<and> submitting w' \<and> exec rt ClickPayNow w' = None"
    using pay_now_starts_submission loading_blocks_pay_now by blast
  have e: "\<forall>i r c'. i < length (pending w) \<and> is_subscribe (pending w ! i) \<and>
        exec rt (Reply i r) w = Some c' \<longrightarrow>
        (\<exists>w'. c' = Normal w' \<and> \<not> loading w' \<and> \<not> submitting w')"
    using settled_submission_clears_loading [OF w(2)] by blast
  have f: "\<forall>i m. i < length (pending w) \<and> is_subscribe (pending w ! i) \<longrightarrow>
        exec rt (Reply i PostOk) w \<noteq> None \<and> exec rt (Reply i (Failure m)) w \<noteq> None"
    using deliver_subscribe_enabled by blast
  from w(1) a b c d e f show ?thesis by blast
qed

theorem one_submission_at_a_time_witness:
  "run host (open_dialog ''Asha'') (mount no_storage) = Some (Normal (asha_dialog no_storage)) \<and>
   trim (customerNameInput (asha_dialog no_storage)) \<noteq> [] \<and>
   exec host ClickPayNow (asha_dialog no_storage) = Some (Normal (asha_in_flight no_storage)) \<and>
   run host (open_dialog ''Asha'' @ [ClickPayNow]) (mount no_storage) =
     Some (Normal (asha_in_flight no_storage)) \<and>
   loading (asha_in_flight no_storage) \<and>
   submitting (asha_in_flight no_storage) \<and>
   exec host ClickPayNow (asha_in_flight no_storage) = None \<and>
   0 < length (pending (asha_in_flight no_storage)) \<and>
   is_subscribe (pending (asha_in_flight no_storage) ! 0) \<and>
   exec host (Reply 0 (Failure None)) (asha_in_flight no_storage) =
     Some (Normal (asha_dialog no_storage
       \<lparr>effects := sent ''Asha'' @ [ConsoleError ''Subscription error:'',
           ToastError ''Subscription failed'']\<rparr>))"
  using one_submission_at_a_time [of host "open_dialog ''Asha''" no_storage
      "Normal (asha_dialog no_storage)"]
    one_submission_at_a_time [of host "open_dialog ''Asha'' @ [ClickPayNow]" no_storage
      "Normal (asha_in_flight no_storage)"]
  by (simp add: handler_defs fixture_defs handleSubscribeClick_def modal_def
      payNow_disabled_def isSubscribed_def submitting_def remove_nth_def data_or_empty_def
      or_else_def trim_Asha)


end
